theory Spec2Isabelle
  imports
    Complex_Main
    "HOL-Library.Multiset"
    "HOL-Library.Product_Lexorder"
    "HOL-Library.Char_ord"
    "HOL-Library.List_Lexorder"
begin

section \<open>Numeric cells\<close>

text \<open>
  A numeric cell of a pandas column is a float64: a finite number, one of the two
  infinities, or NaN (which is also how a missing value of a numeric column is stored).
  Finite results are computed exactly over the reals: rounding, overflow to infinity and
  the sign of zero are not modelled. The special values follow IEEE 754, which is what
  numpy computes: \<open>x / 0\<close> is an infinity for \<open>x \<noteq> 0\<close> and NaN for \<open>x = 0\<close>.
\<close>

datatype float64 = NaN | NegInf | Fin real | PosInf

definition signed_inf :: "real \<Rightarrow> float64" where
  "signed_inf s = (if s = 0 then NaN else if 0 < s then PosInf else NegInf)"

fun fadd :: "float64 \<Rightarrow> float64 \<Rightarrow> float64" where
  "fadd (Fin a) (Fin b) = Fin (a + b)"
| "fadd NaN y = NaN"
| "fadd x NaN = NaN"
| "fadd PosInf NegInf = NaN"
| "fadd NegInf PosInf = NaN"
| "fadd PosInf y = PosInf"
| "fadd x PosInf = PosInf"
| "fadd NegInf y = NegInf"
| "fadd x NegInf = NegInf"

fun fmul :: "float64 \<Rightarrow> float64 \<Rightarrow> float64" where
  "fmul (Fin a) (Fin b) = Fin (a * b)"
| "fmul NaN y = NaN"
| "fmul x NaN = NaN"
| "fmul PosInf (Fin b) = signed_inf b"
| "fmul NegInf (Fin b) = signed_inf (- b)"
| "fmul (Fin a) PosInf = signed_inf a"
| "fmul (Fin a) NegInf = signed_inf (- a)"
| "fmul PosInf PosInf = PosInf"
| "fmul NegInf NegInf = PosInf"
| "fmul PosInf NegInf = NegInf"
| "fmul NegInf PosInf = NegInf"

fun fdiv :: "float64 \<Rightarrow> float64 \<Rightarrow> float64" where
  "fdiv (Fin a) (Fin b) = (if b = 0 then signed_inf a else Fin (a / b))"
| "fdiv NaN y = NaN"
| "fdiv x NaN = NaN"
| "fdiv (Fin a) PosInf = Fin 0"
| "fdiv (Fin a) NegInf = Fin 0"
| "fdiv PosInf (Fin b) = (if 0 \<le> b then PosInf else NegInf)"
| "fdiv NegInf (Fin b) = (if 0 \<le> b then NegInf else PosInf)"
| "fdiv PosInf PosInf = NaN"
| "fdiv PosInf NegInf = NaN"
| "fdiv NegInf PosInf = NaN"
| "fdiv NegInf NegInf = NaN"

text \<open>\<open>Series.fillna(v)\<close>: a missing (NaN) cell becomes \<open>v\<close>, every other cell is kept.\<close>

definition fillna :: "float64 \<Rightarrow> float64 \<Rightarrow> float64" where
  "fillna v x = (if x = NaN then v else x)"

section \<open>Timestamps\<close>

text \<open>
  A parsed date is a pandas Timestamp: nanoseconds since 1970-01-01T00:00 (a Thursday).
  \<open>dt.day_name()\<close> and \<open>dt.hour\<close> read the weekday and the hour of the day off it.
  Parsing the text of the date column is the library's work and is not modelled.
\<close>

type_synonym timestamp = int

definition days_order :: "string list" where
  "days_order = [''Monday'', ''Tuesday'', ''Wednesday'', ''Thursday'', ''Friday'',
                 ''Saturday'', ''Sunday'']"

definition ns_per_hour :: int where
  "ns_per_hour = 3600 * 1000000000"

definition ns_per_day :: int where
  "ns_per_day = 24 * ns_per_hour"

definition day_name :: "timestamp \<Rightarrow> string" where
  "day_name t = days_order ! nat ((t div ns_per_day + 3) mod 7)"

definition hour_of :: "timestamp \<Rightarrow> nat" where
  "hour_of t = nat ((t div ns_per_hour) mod 24)"

section \<open>Data frames\<close>

text \<open>
  A data frame is the list of its rows, in row order; a row carries its index label
  \<open>idx\<close> and one field per column. \<open>post\<close> is a row of a validated upload,
  \<open>enriched\<close> a row of a processed data set. The month, ISO week and hashtag columns
  of the processed frame are left out: no function below reads them.
\<close>

record post =
  idx :: int
  date :: timestamp
  likes :: float64
  comments :: float64
  reach :: float64
  impressions :: float64
  post_type :: string

record enriched = post +
  engagement :: float64
  engagement_rate :: float64
  day_of_week :: string
  hour :: nat

text \<open>\<open>reset_index(drop=True)\<close>: the labels become 0, 1, 2, ... in row order.\<close>

fun reindex_from :: "int \<Rightarrow> enriched list \<Rightarrow> enriched list" where
  "reindex_from i [] = []"
| "reindex_from i (r # rs) = r\<lparr>idx := i\<rparr> # reindex_from (i + 1) rs"

definition reset_index :: "enriched list \<Rightarrow> enriched list" where
  "reset_index rs = reindex_from 0 rs"

section \<open>DataProcessor\<close>

subsection \<open>process_data\<close>

text \<open>
  The column assignments of \<open>process_data\<close>, read row by row and in the source's
  order: fill the four counts, add them up, divide, fill again, read the time features.
\<close>

definition enrich_row :: "post \<Rightarrow> enriched" where
  "enrich_row r =
     (let l = fillna (Fin 0) (likes r);
          c = fillna (Fin 0) (comments r);
          rc = fillna (Fin 0) (reach r);
          im = fillna (Fin 0) (impressions r);
          e = fadd l c;
          er = fillna (Fin 0) (fmul (fdiv e rc) (Fin 100))
      in \<lparr>idx = idx r, date = date r, likes = l, comments = c, reach = rc,
          impressions = im, post_type = post_type r,
          engagement = e, engagement_rate = er,
          day_of_week = day_name (date r), hour = hour_of (date r)\<rparr>)"

text \<open>
  \<open>sort_values('date')\<close> is modelled by the stable \<open>sort_key\<close>; the library's default
  sort kind does not promise an order among equal dates, and nothing below relies on one.
\<close>

definition process_data :: "post list \<Rightarrow> enriched list" where
  "process_data data = reset_index (sort_key date (map enrich_row data))"

subsection \<open>filter_data\<close>

text \<open>
  Each optional argument is tested for truth, not for \<open>None\<close>: \<open>None\<close> skips the
  filter, and so does an empty list of post types. A Timestamp is always true.
\<close>

definition filter_data ::
  "enriched list \<Rightarrow> timestamp option \<Rightarrow> timestamp option \<Rightarrow> string list option \<Rightarrow> enriched list" where
  "filter_data data start_date end_date post_types =
     (let filtered_data = data;
          filtered_data = (case start_date of
              None \<Rightarrow> filtered_data
            | Some s \<Rightarrow> filter (\<lambda>r. s \<le> date r) filtered_data);
          filtered_data = (case end_date of
              None \<Rightarrow> filtered_data
            | Some e \<Rightarrow> filter (\<lambda>r. date r \<le> e) filtered_data);
          filtered_data = (case post_types of
              None \<Rightarrow> filtered_data
            | Some ts \<Rightarrow> if ts \<noteq> [] then filter (\<lambda>r. post_type r \<in> set ts) filtered_data
                       else filtered_data)
      in filtered_data)"

subsection \<open>validate_data\<close>

text \<open>
  What \<open>validate_data\<close> reads of its argument: whether it is a data frame at all, and
  for a data frame the dtype of each column, by column name.
\<close>

datatype dtype = Int64 | Float64 | Complex128 | Bool | Object | Datetime64 | Category

type_synonym schema = "string \<rightharpoonup> dtype"

datatype pyobject = DataFrame schema | NotAFrame

datatype py_error = AttributeError | KeyError

fun is_numeric_dtype :: "dtype \<Rightarrow> bool" where
  "is_numeric_dtype Int64 = True"
| "is_numeric_dtype Float64 = True"
| "is_numeric_dtype Complex128 = True"
| "is_numeric_dtype Bool = True"
| "is_numeric_dtype Object = False"
| "is_numeric_dtype Datetime64 = False"
| "is_numeric_dtype Category = False"

definition required_columns :: "string list" where
  "required_columns = [''date'', ''likes'', ''comments'', ''reach'', ''impressions'', ''post_type'']"

definition getitem :: "('k \<rightharpoonup> 'v) \<Rightarrow> 'k \<Rightarrow> py_error + 'v" where
  "getitem m k = (case m k of None \<Rightarrow> Inl KeyError | Some v \<Rightarrow> Inr v)"

text \<open>\<open>is_numeric_dtype(data[col])\<close>: the lookup raises KeyError on a missing column.\<close>

definition column_is_numeric :: "schema \<Rightarrow> string \<Rightarrow> py_error + bool" where
  "column_is_numeric cols col =
     (case getitem cols col of Inl e \<Rightarrow> Inl e | Inr t \<Rightarrow> Inr (is_numeric_dtype t))"

text \<open>The chain of \<open>if not is_numeric_dtype(...): return False\<close>, one column after the other.\<close>

fun check_numeric :: "schema \<Rightarrow> string list \<Rightarrow> py_error + bool" where
  "check_numeric cols [] = Inr True"
| "check_numeric cols (col # cs) =
     (case column_is_numeric cols col of
        Inl e \<Rightarrow> Inl e
      | Inr b \<Rightarrow> (if \<not> b then Inr False else check_numeric cols cs))"

text \<open>The body of the \<open>try\<close> block: it returns a boolean or raises.\<close>

definition validate_body :: "pyobject \<Rightarrow> py_error + bool" where
  "validate_body data =
     (case data of
        NotAFrame \<Rightarrow> Inl AttributeError
      | DataFrame cols \<Rightarrow>
          (let missing_columns = filter (\<lambda>col. cols col = None) required_columns
           in if missing_columns \<noteq> [] then Inr False
              else check_numeric cols [''likes'', ''comments'', ''reach'', ''impressions'']))"

text \<open>\<open>except Exception: return False\<close>.\<close>

definition validate_data :: "pyobject \<Rightarrow> bool" where
  "validate_data data = (case validate_body data of Inl e \<Rightarrow> False | Inr b \<Rightarrow> b)"

section \<open>Analytics\<close>

text \<open>
  The frame an \<open>Analytics\<close> object holds: the names of its columns and its rows. The
  rows are records of the processed schema; the column names are what the guard on
  \<open>'hour'\<close> inspects.
\<close>

record dataframe =
  columns :: "string list"
  rows :: "enriched list"

definition processed_columns :: "string list" where
  "processed_columns = [''date'', ''likes'', ''comments'', ''reach'', ''impressions'',
     ''post_type'', ''engagement'', ''engagement_rate'', ''day_of_week'', ''hour'',
     ''month'', ''week'']"

definition processed_frame :: "enriched list \<Rightarrow> dataframe" where
  "processed_frame rs = \<lparr>columns = processed_columns, rows = rs\<rparr>"

subsection \<open>Library operations\<close>

text \<open>
  IEEE comparison: false as soon as one side is NaN.
\<close>

fun fle :: "float64 \<Rightarrow> float64 \<Rightarrow> bool" where
  "fle (Fin a) (Fin b) = (a \<le> b)"
| "fle NaN y = False"
| "fle x NaN = False"
| "fle NegInf y = True"
| "fle x PosInf = True"
| "fle PosInf y = False"
| "fle x NegInf = False"

text \<open>
  The position of a value in a descending sort: the largest value has the smallest key,
  and NaN comes after every number.
\<close>

fun desc_key :: "float64 \<Rightarrow> nat \<times> real" where
  "desc_key PosInf = (0, 0)"
| "desc_key (Fin a) = (1, - a)"
| "desc_key NegInf = (2, 0)"
| "desc_key NaN = (3, 0)"

text \<open>
  \<open>DataFrame.nlargest(n, col)\<close> with the default \<open>keep='first'\<close>, by its documented
  contract: the first \<open>n\<close> rows of the frame sorted by \<open>col\<close> in descending order, rows
  with equal values in their original order; no row for \<open>n \<le> 0\<close>.
\<close>

definition nlargest :: "int \<Rightarrow> ('a \<Rightarrow> float64) \<Rightarrow> 'a list \<Rightarrow> 'a list" where
  "nlargest n col xs = take (nat n) (sort_key (\<lambda>x. desc_key (col x)) xs)"











subsection \<open>find_optimal_posting_times\<close>




subsection \<open>get_top_posts\<close>

definition get_top_posts :: "int \<Rightarrow> dataframe \<Rightarrow> enriched list" where
  "get_top_posts limit df = nlargest limit engagement_rate (rows df)"

section \<open>ContentPlanner\<close>

text \<open>
  The two entries of the session state the planner owns: the calendar, a dict from date
  strings to items (themselves dicts from field names to values), and the list of ideas.
  \<open>datetime.now().isoformat()\<close> is passed in as \<open>now\<close>.
\<close>

type_synonym calendar_item = "string \<rightharpoonup> string"

record idea =
  idea_id :: int
  title :: string
  description :: string
  hashtags :: string
  priority :: string
  category :: string
  created_at :: string
  status :: string
  used :: bool

record session_state =
  content_calendar :: "string \<rightharpoonup> calendar_item"
  content_ideas :: "idea list"

text \<open>\<open>del d[k]\<close> raises KeyError on a missing key.\<close>

definition delitem :: "('k \<rightharpoonup> 'v) \<Rightarrow> 'k \<Rightarrow> py_error + ('k \<rightharpoonup> 'v)" where
  "delitem m k = (case m k of None \<Rightarrow> Inl KeyError | Some v \<Rightarrow> Inr (m(k := None)))"

definition update_calendar_item ::
  "string \<Rightarrow> string \<Rightarrow> string \<Rightarrow> session_state \<Rightarrow> py_error + session_state" where
  "update_calendar_item date_str field val st =
     (if date_str \<in> dom (content_calendar st)
      then (case getitem (content_calendar st) date_str of
              Inl e \<Rightarrow> Inl e
            | Inr item \<Rightarrow>
                Inr (st\<lparr>content_calendar := (content_calendar st)(date_str \<mapsto> item(field \<mapsto> val))\<rparr>))
      else Inr st)"

definition delete_calendar_item :: "string \<Rightarrow> session_state \<Rightarrow> py_error + session_state" where
  "delete_calendar_item date_str st =
     (if date_str \<in> dom (content_calendar st)
      then (case delitem (content_calendar st) date_str of
              Inl e \<Rightarrow> Inl e
            | Inr cal \<Rightarrow> Inr (st\<lparr>content_calendar := cal\<rparr>))
      else Inr st)"

definition add_content_idea ::
  "string \<Rightarrow> string \<Rightarrow> string \<Rightarrow> string \<Rightarrow> string \<Rightarrow> string \<Rightarrow> session_state \<Rightarrow> session_state" where
  "add_content_idea now ttl descr tags prio cat st =
     (let new_idea = \<lparr>idea_id = int (length (content_ideas st)) + 1, title = ttl,
                      description = descr, hashtags = tags, priority = prio, category = cat,
                      created_at = now, status = ''idea'', used = False\<rparr>
      in st\<lparr>content_ideas := content_ideas st @ [new_idea]\<rparr>)"

definition delete_content_idea :: "int \<Rightarrow> session_state \<Rightarrow> session_state" where
  "delete_content_idea i st =
     st\<lparr>content_ideas := filter (\<lambda>x. idea_id x \<noteq> i) (content_ideas st)\<rparr>"

section \<open>Example data\<close>



definition monday_row :: enriched where
  "monday_row =
     \<lparr>idx = 1, date = 1704099600000000000, likes = Fin 100, comments = Fin 20,
      reach = Fin 1000, impressions = Fin 2000, post_type = ''photo'',
      engagement = Fin 120, engagement_rate = Fin 12, day_of_week = ''Monday'', hour = 9\<rparr>"


text \<open>
  Five Monday posts: one at 09:00 (rate 5), one at 10:00 and one at 11:00 (rate 12
  each), two at 14:00 (rates 20 and 10, mean 15).
\<close>

definition low_row :: enriched where
  "low_row = \<lparr>idx = 0, date = 1704099600000000000, likes = Fin 5, comments = Fin 0,
     reach = Fin 100, impressions = Fin 100, post_type = ''photo'',
     engagement = Fin 5, engagement_rate = Fin 5, day_of_week = ''Monday'', hour = 9\<rparr>"

definition tie_row_a :: enriched where
  "tie_row_a = \<lparr>idx = 1, date = 1704103200000000000, likes = Fin 12, comments = Fin 0,
     reach = Fin 100, impressions = Fin 100, post_type = ''video'',
     engagement = Fin 12, engagement_rate = Fin 12, day_of_week = ''Monday'', hour = 10\<rparr>"

definition tie_row_b :: enriched where
  "tie_row_b = \<lparr>idx = 2, date = 1704106800000000000, likes = Fin 6, comments = Fin 6,
     reach = Fin 100, impressions = Fin 100, post_type = ''photo'',
     engagement = Fin 12, engagement_rate = Fin 12, day_of_week = ''Monday'', hour = 11\<rparr>"



definition tie_frame :: dataframe where
  "tie_frame = processed_frame [low_row, tie_row_a, tie_row_b]"



text \<open>Column dtypes of a well-formed upload, and of one whose likes are text.\<close>

definition good_schema :: schema where
  "good_schema = [''date'' \<mapsto> Object, ''likes'' \<mapsto> Int64, ''comments'' \<mapsto> Int64,
     ''reach'' \<mapsto> Float64, ''impressions'' \<mapsto> Int64, ''post_type'' \<mapsto> Object]"

definition text_likes_schema :: schema where
  "text_likes_schema = good_schema(''likes'' \<mapsto> Object)"

definition no_reach_schema :: schema where
  "no_reach_schema = good_schema(''reach'' := None)"

text \<open>Planner states: nothing planned, one planned post, three ideas added in a row.\<close>

definition empty_state :: session_state where
  "empty_state = \<lparr>content_calendar = Map.empty, content_ideas = []\<rparr>"

definition one_planned :: session_state where
  "one_planned =
     \<lparr>content_calendar = [''2024-01-01'' \<mapsto> [''status'' \<mapsto> ''planned'']],
      content_ideas = []\<rparr>"

definition three_ideas :: session_state where
  "three_ideas =
     add_content_idea ''t3'' ''third'' ''d'' ''#c'' ''Low'' ''General''
       (add_content_idea ''t2'' ''second'' ''d'' ''#b'' ''High'' ''General''
         (add_content_idea ''t1'' ''first'' ''d'' ''#a'' ''Medium'' ''General'' empty_state))"

section \<open>Properties of the DataProcessor\<close>

subsection \<open>Rows of a processed frame\<close>

lemma set_reindex_from_fields:
  "r \<in> set (reindex_from i rs) \<Longrightarrow> \<exists>r' \<in> set rs. \<exists>j. r = r'\<lparr>idx := j\<rparr>"
  by (induction i rs rule: reindex_from.induct) auto

lemma process_data_row:
  assumes "r \<in> set (process_data data)"
  shows "\<exists>p \<in> set data. \<exists>j. r = (enrich_row p)\<lparr>idx := j\<rparr>"
proof -
  from assms obtain r' j where "r' \<in> set (sort_key date (map enrich_row data))"
    and "r = r'\<lparr>idx := j\<rparr>"
    unfolding process_data_def reset_index_def
    by (blast dest: set_reindex_from_fields)
  then show ?thesis by auto
qed

lemma map_date_reindex_from: "map date (reindex_from i rs) = map date rs"
  by (induction i rs rule: reindex_from.induct) auto

lemma map_idx_reindex_from:
  "map idx (reindex_from i rs) = map (\<lambda>k. i + int k) [0..<length rs]"
proof (induction i rs rule: reindex_from.induct)
  case (1 i)
  then show ?case by simp
next
  case (2 i r rs)
  have "[0..<Suc (length rs)] = 0 # map Suc [0..<length rs]"
    by (simp add: upt_conv_Cons map_Suc_upt del: upt_Suc)
  then show ?case using 2 by (simp add: o_def add.assoc del: upt_Suc)
qed

lemma length_reindex_from: "length (reindex_from i rs) = length rs"
  by (induction i rs rule: reindex_from.induct) auto

lemma length_process_data: "length (process_data data) = length data"
  by (simp add: process_data_def reset_index_def length_reindex_from)

lemma enrich_row_simps:
  "likes (enrich_row p) = fillna (Fin 0) (likes p)"
  "comments (enrich_row p) = fillna (Fin 0) (comments p)"
  "reach (enrich_row p) = fillna (Fin 0) (reach p)"
  "impressions (enrich_row p) = fillna (Fin 0) (impressions p)"
  "date (enrich_row p) = date p"
  "post_type (enrich_row p) = post_type p"
  "engagement (enrich_row p) = fadd (fillna (Fin 0) (likes p)) (fillna (Fin 0) (comments p))"
  "engagement_rate (enrich_row p) =
     fillna (Fin 0) (fmul (fdiv (fadd (fillna (Fin 0) (likes p)) (fillna (Fin 0) (comments p)))
                                (fillna (Fin 0) (reach p))) (Fin 100))"
  "day_of_week (enrich_row p) = day_name (date p)"
  "hour (enrich_row p) = hour_of (date p)"
  by (simp_all add: enrich_row_def Let_def)

lemma hour_of_range: "hour_of t < 24"
  by (simp add: hour_of_def nat_less_iff)

lemma day_name_weekday: "day_name t \<in> set days_order"
proof -
  have "nat ((t div ns_per_day + 3) mod 7) < length days_order"
    by (simp add: days_order_def nat_less_iff)
  then show ?thesis unfolding day_name_def by (rule nth_mem)
qed

lemma process_data_time_features:
  assumes "r \<in> set (process_data data)"
  shows "hour r < 24 \<and> day_of_week r \<in> set days_order"
proof -
  from process_data_row [OF assms] obtain p j
    where "r = (enrich_row p)\<lparr>idx := j\<rparr>" by blast
  then show ?thesis
    by (simp add: enrich_row_simps hour_of_range day_name_weekday)
qed



subsection \<open>Engagement rate\<close>




subsection \<open>Engagement\<close>



subsection \<open>Order and index\<close>

text \<open>
  Claim C8. The rows of a processed frame are in ascending order of date, and their
  index labels are 0, 1, ..., n - 1 in row order, n the number of uploaded rows.
\<close>

theorem process_data_sorted_and_reindexed:
  "sorted (map date (process_data data))
   \<and> map idx (process_data data) = map int [0..<length data]"
  by (simp add: process_data_def reset_index_def map_date_reindex_from
        map_idx_reindex_from length_reindex_from)

subsection \<open>filter_data\<close>

text \<open>
  Claim C9, as the code has it. \<open>filter_data\<close> returns, in their order, exactly the
  rows with \<open>date \<ge> start\<close> when a start is given, \<open>date \<le> end\<close> when an end is given
  (both bounds inclusive), and a post type among \<open>post_types\<close> when a non-empty list of
  post types is given. An argument that is \<open>None\<close> imposes nothing, and neither does an
  empty list of post types.
\<close>

theorem filter_data_conjunction:
  "filter_data data start_date end_date post_types =
     filter (\<lambda>r. (case start_date of None \<Rightarrow> True | Some s \<Rightarrow> s \<le> date r)
                \<and> (case end_date of None \<Rightarrow> True | Some e \<Rightarrow> date r \<le> e)
                \<and> (case post_types of None \<Rightarrow> True
                     | Some ts \<Rightarrow> ts = [] \<or> post_type r \<in> set ts)) data"
  by (auto simp: filter_data_def Let_def split: option.splits intro!: filter_cong)

text \<open>
  With the empty list of post types given, no row has its post type in the list, yet
  the row is returned.
\<close>

theorem filter_data_empty_types_counterexample:
  "filter_data [monday_row] None None (Some []) = [monday_row]
   \<and> filter (\<lambda>r. post_type r \<in> set []) [monday_row] = []"
  by (simp add: filter_data_def)

lemma filter_data_scenario:
  "filter_data [monday_row] (Some 1704099600000000000) (Some 1704099600000000000)
      (Some [''photo'']) = [monday_row]
   \<and> filter_data [monday_row] None None (Some [''video'']) = []"
  by (simp add: filter_data_def monday_row_def)

subsection \<open>validate_data\<close>

lemma check_numeric_present:
  "\<forall>c \<in> set cs. cols c \<noteq> None \<Longrightarrow>
     check_numeric cols cs = Inr (\<forall>c \<in> set cs. \<exists>t. cols c = Some t \<and> is_numeric_dtype t)"
  by (induction cs) (auto simp: column_is_numeric_def getitem_def)

lemma validate_body_frame:
  "validate_body (DataFrame cols) =
     (if \<exists>c \<in> set required_columns. cols c = None then Inr False
      else Inr (\<forall>c \<in> set [''likes'', ''comments'', ''reach'', ''impressions''].
                  \<exists>t. cols c = Some t \<and> is_numeric_dtype t))"
proof (cases "\<exists>c \<in> set required_columns. cols c = None")
  case True
  then have "filter (\<lambda>col. cols col = None) required_columns \<noteq> []"
    by (simp add: filter_empty_conv)
  then show ?thesis using True by (simp add: validate_body_def Let_def)
next
  case False
  then have e: "filter (\<lambda>col. cols col = None) required_columns = []"
    by (simp add: filter_empty_conv)
  from False have ne: "\<forall>c \<in> set [''likes'', ''comments'', ''reach'', ''impressions'']. cols c \<noteq> None"
    by (simp add: required_columns_def)
  have "validate_body (DataFrame cols)
          = check_numeric cols [''likes'', ''comments'', ''reach'', ''impressions'']"
    by (simp only: validate_body_def pyobject.case Let_def e) simp
  also have "\<dots> = Inr (\<forall>c \<in> set [''likes'', ''comments'', ''reach'', ''impressions''].
                  \<exists>t. cols c = Some t \<and> is_numeric_dtype t)"
    by (rule check_numeric_present [OF ne])
  finally show ?thesis by (simp only: False if_False)
qed

lemma validate_data_good: "validate_data (DataFrame good_schema)"
  by (simp add: validate_data_def validate_body_frame good_schema_def required_columns_def)

text \<open>
  Claim C3. Validation fails for a frame that lacks a required column, fails for a
  frame one of whose columns likes, comments, reach, impressions is not numeric, and
  fails whenever the checks raise: no exception leaves \<open>validate_data\<close>.
\<close>

theorem validate_data_fails_closed:
  "(c \<in> set required_columns \<and> cols c = None \<longrightarrow> \<not> validate_data (DataFrame cols))
 \<and> (c' \<in> set [''likes'', ''comments'', ''reach'', ''impressions'']
        \<and> cols' c' = Some t \<and> \<not> is_numeric_dtype t \<longrightarrow> \<not> validate_data (DataFrame cols'))
 \<and> (validate_body data = Inl e \<longrightarrow> \<not> validate_data data)"
proof (intro conjI impI)
  assume "c \<in> set required_columns \<and> cols c = None"
  then show "\<not> validate_data (DataFrame cols)"
    by (auto simp: validate_data_def validate_body_frame)
next
  assume "c' \<in> set [''likes'', ''comments'', ''reach'', ''impressions'']
        \<and> cols' c' = Some t \<and> \<not> is_numeric_dtype t"
  then show "\<not> validate_data (DataFrame cols')"
    by (auto simp: validate_data_def validate_body_frame)
next
  assume "validate_body data = Inl e"
  then show "\<not> validate_data data"
    by (simp add: validate_data_def)
qed

theorem validate_data_fails_closed_witness:
  "''reach'' \<in> set required_columns \<and> no_reach_schema ''reach'' = None
   \<and> \<not> validate_data (DataFrame no_reach_schema)
   \<and> text_likes_schema ''likes'' = Some Object \<and> \<not> is_numeric_dtype Object
   \<and> \<not> validate_data (DataFrame text_likes_schema)
   \<and> validate_body NotAFrame = Inl AttributeError
   \<and> \<not> validate_data NotAFrame"
proof -
  have h1: "''reach'' \<in> set required_columns \<and> no_reach_schema ''reach'' = None"
    by (simp add: required_columns_def no_reach_schema_def)
  have h2: "''likes'' \<in> set [''likes'', ''comments'', ''reach'', ''impressions'']
            \<and> text_likes_schema ''likes'' = Some Object \<and> \<not> is_numeric_dtype Object"
    by (simp add: text_likes_schema_def)
  have h3: "validate_body NotAFrame = Inl AttributeError"
    by (simp add: validate_body_def)
  from validate_data_fails_closed
         [of "''reach''" no_reach_schema "''likes''" text_likes_schema Object
             NotAFrame AttributeError]
       h1 h2 h3
  show ?thesis by blast
qed

section \<open>Properties of the Analytics\<close>

subsection \<open>nlargest\<close>

lemma desc_key_le_iff: "desc_key x \<le> desc_key y \<longleftrightarrow> y = NaN \<or> fle y x"
  by (cases x; cases y) (auto simp: less_eq_prod_def)

lemma desc_key_inj: "desc_key x = desc_key y \<longleftrightarrow> x = y"
  by (cases x; cases y) auto

lemma sorted_sort_key_wrt:
  "sorted_wrt (\<lambda>a b. f a \<le> f b) (sort_key f xs)"
  using sorted_sort_key [of f xs] by (simp add: sorted_map)

lemma nlargest_take_drop:
  "nlargest n col xs @ drop (nat n) (sort_key (\<lambda>x. desc_key (col x)) xs)
     = sort_key (\<lambda>x. desc_key (col x)) xs"
  by (simp add: nlargest_def)

lemma length_nlargest: "length (nlargest n col xs) = min (nat n) (length xs)"
  by (simp add: nlargest_def min.commute)

lemma set_nlargest_subset: "set (nlargest n col xs) \<subseteq> set xs"
  using set_take_subset [of "nat n" "sort_key (\<lambda>x. desc_key (col x)) xs"]
  by (simp add: nlargest_def)

lemma sorted_nlargest:
  "sorted_wrt (\<lambda>a b. desc_key (col a) \<le> desc_key (col b)) (nlargest n col xs)"
  unfolding nlargest_def
  by (rule sorted_wrt_take) (rule sorted_sort_key_wrt)

lemma mset_nlargest_rest:
  "mset xs - mset (nlargest n col xs)
     = mset (drop (nat n) (sort_key (\<lambda>x. desc_key (col x)) xs))"
proof -
  have "mset xs = mset (nlargest n col xs)
                + mset (drop (nat n) (sort_key (\<lambda>x. desc_key (col x)) xs))"
    using arg_cong [OF nlargest_take_drop [of n col xs], of mset] by simp
  then show ?thesis by simp
qed

lemma nlargest_dominates:
  assumes "x \<in> set (nlargest n col xs)"
    and "y \<in># mset xs - mset (nlargest n col xs)"
  shows "desc_key (col x) \<le> desc_key (col y)"
proof -
  let ?S = "sort_key (\<lambda>x. desc_key (col x)) xs"
  have "sorted_wrt (\<lambda>a b. desc_key (col a) \<le> desc_key (col b)) (take (nat n) ?S @ drop (nat n) ?S)"
    by (simp add: sorted_sort_key_wrt)
  then have "\<forall>a \<in> set (take (nat n) ?S). \<forall>b \<in> set (drop (nat n) ?S).
               desc_key (col a) \<le> desc_key (col b)"
    unfolding sorted_wrt_append by blast
  moreover have "y \<in> set (drop (nat n) ?S)"
    using assms(2) by (simp add: mset_nlargest_rest)
  ultimately show ?thesis using assms(1) by (simp add: nlargest_def)
qed

lemma filter_take_prefix:
  "filter P (take n xs) = take (length (filter P (take n xs))) (filter P xs)"
proof (induction xs arbitrary: n)
  case Nil
  then show ?case by simp
next
  case (Cons x xs)
  then show ?case by (cases n) auto
qed

lemma nlargest_stable:
  "filter (\<lambda>r. col r = v) (nlargest n col xs)
     = take (length (filter (\<lambda>r. col r = v) (nlargest n col xs))) (filter (\<lambda>r. col r = v) xs)"
proof -
  let ?k = "\<lambda>x. desc_key (col x)"
  have eq: "(\<lambda>r. col r = v) = (\<lambda>r. ?k r = desc_key v)"
    by (simp add: desc_key_inj)
  have "filter (\<lambda>r. col r = v) (sort_key ?k xs) = filter (\<lambda>r. col r = v) xs"
    unfolding eq by (rule sort_key_stable)
  with filter_take_prefix [of "\<lambda>r. col r = v" "nat n" "sort_key ?k xs"]
  show ?thesis by (simp add: nlargest_def)
qed

lemma nlargest_hd_max:
  assumes "nlargest n col xs \<noteq> []" and "y \<in> set xs"
  shows "desc_key (col (hd (nlargest n col xs))) \<le> desc_key (col y)"
proof -
  let ?S = "sort_key (\<lambda>x. desc_key (col x)) xs"
  from assms(1) have n: "0 < nat n" and ne: "?S \<noteq> []"
    by (auto simp: nlargest_def)
  then have hd: "hd (nlargest n col xs) = hd ?S"
    by (simp add: nlargest_def)
  obtain s ss where S: "?S = s # ss" using ne by (cases ?S) auto
  have "sorted_wrt (\<lambda>a b. desc_key (col a) \<le> desc_key (col b)) ?S"
    by (rule sorted_sort_key_wrt)
  then have "\<forall>b \<in> set ss. desc_key (col s) \<le> desc_key (col b)"
    unfolding S by simp
  moreover have "y \<in> set ?S" using assms(2) by simp
  ultimately show ?thesis unfolding hd S by auto
qed

subsection \<open>get_top_posts\<close>

text \<open>
  Claim C5. On a frame whose engagement rates are numbers (no NaN, as in every processed
  frame), \<open>get_top_posts n\<close> returns \<open>min n (number of rows)\<close> rows of the frame, in
  descending order of engagement rate; every returned row has a rate at least that of
  every row left out; rows of equal rate come in their original order, the earliest
  ones first; and the first returned row has a rate at least that of every row of the
  frame.
\<close>

theorem get_top_posts_largest_first:
  assumes "\<forall>r \<in> set (rows df). engagement_rate r \<noteq> NaN"
  shows "length (get_top_posts n df) = min (nat n) (length (rows df))
    \<and> set (get_top_posts n df) \<subseteq> set (rows df)
    \<and> sorted_wrt (\<lambda>a b. fle (engagement_rate b) (engagement_rate a)) (get_top_posts n df)
    \<and> (\<forall>x \<in> set (get_top_posts n df). \<forall>y \<in># mset (rows df) - mset (get_top_posts n df).
          fle (engagement_rate y) (engagement_rate x))
    \<and> (\<forall>v. \<exists>m. filter (\<lambda>r. engagement_rate r = v) (get_top_posts n df)
                 = take m (filter (\<lambda>r. engagement_rate r = v) (rows df)))
    \<and> (get_top_posts n df \<noteq> [] \<longrightarrow>
          (\<forall>y \<in> set (rows df). fle (engagement_rate y) (engagement_rate (hd (get_top_posts n df)))))"
proof -
  let ?T = "get_top_posts n df"
  have T: "?T = nlargest n engagement_rate (rows df)" by (simp add: get_top_posts_def)
  have sub: "set ?T \<subseteq> set (rows df)" unfolding T by (rule set_nlargest_subset)
  have le: "desc_key (engagement_rate a) \<le> desc_key (engagement_rate b)
            \<longleftrightarrow> fle (engagement_rate b) (engagement_rate a)" if "b \<in> set (rows df)" for a b :: enriched
    using that assms by (simp add: desc_key_le_iff)
  have 1: "length ?T = min (nat n) (length (rows df))"
    unfolding T by (rule length_nlargest)
  have "sorted_wrt (\<lambda>a b. desc_key (engagement_rate a) \<le> desc_key (engagement_rate b)) ?T"
    unfolding T by (rule sorted_nlargest)
  then have 3: "sorted_wrt (\<lambda>a b. fle (engagement_rate b) (engagement_rate a)) ?T"
    by (rule sorted_wrt_mono_rel [rotated]) (use sub le in blast)
  have 4: "fle (engagement_rate y) (engagement_rate x)"
    if "x \<in> set ?T" "y \<in># mset (rows df) - mset ?T" for x y
  proof -
    from that(2) have "y \<in># mset (rows df)" by (rule in_diffD)
    then have y: "y \<in> set (rows df)" by simp
    from that have "desc_key (engagement_rate x) \<le> desc_key (engagement_rate y)"
      unfolding T by (rule nlargest_dominates)
    with le [OF y] show ?thesis by simp
  qed
  have 5: "\<exists>m. filter (\<lambda>r. engagement_rate r = v) ?T
                 = take m (filter (\<lambda>r. engagement_rate r = v) (rows df))" for v
    unfolding T using nlargest_stable [of engagement_rate v n "rows df"] by blast
  have 6: "fle (engagement_rate y) (engagement_rate (hd ?T))"
    if "?T \<noteq> []" "y \<in> set (rows df)" for y
    using nlargest_hd_max [of n engagement_rate "rows df" y] that le unfolding T by blast
  from 1 sub 3 4 5 6 show ?thesis by blast
qed

lemma get_top_posts_tie_frame: "get_top_posts 2 tie_frame = [tie_row_a, tie_row_b]"
  by (simp add: get_top_posts_def nlargest_def tie_frame_def processed_frame_def
        low_row_def tie_row_a_def tie_row_b_def less_eq_prod_def)

theorem get_top_posts_largest_first_witness:
  "engagement_rate low_row \<noteq> NaN \<and> engagement_rate tie_row_a \<noteq> NaN
   \<and> engagement_rate tie_row_b \<noteq> NaN
   \<and> get_top_posts 2 tie_frame = [tie_row_a, tie_row_b]
   \<and> length (get_top_posts 2 tie_frame) = min (nat 2) (length (rows tie_frame))
   \<and> fle (engagement_rate low_row) (engagement_rate (hd (get_top_posts 2 tie_frame)))"
proof -
  have h: "\<forall>r \<in> set (rows tie_frame). engagement_rate r \<noteq> NaN"
    by (simp add: tie_frame_def processed_frame_def low_row_def tie_row_a_def tie_row_b_def)
  have m: "low_row \<in> set (rows tie_frame)"
    by (simp add: tie_frame_def processed_frame_def)
  from get_top_posts_largest_first [OF h, of 2] m
  have "length (get_top_posts 2 tie_frame) = min (nat 2) (length (rows tie_frame))"
    and "get_top_posts 2 tie_frame \<noteq> [] \<longrightarrow>
          fle (engagement_rate low_row) (engagement_rate (hd (get_top_posts 2 tie_frame)))"
    by blast+
  then show ?thesis
    by (simp add: get_top_posts_tie_frame) (simp add: low_row_def tie_row_a_def tie_row_b_def)
qed


subsection \<open>The groups of a day\<close>



















subsection \<open>find_optimal_posting_times: the seven days\<close>




subsection \<open>find_optimal_posting_times: the hours of a day\<close>



section \<open>Properties of the ContentPlanner\<close>

subsection \<open>Calendar items\<close>

text \<open>
  Claim C10. For a date string that is not a key of the calendar,
  \<open>update_calendar_item\<close> and \<open>delete_calendar_item\<close> return normally and leave the
  session state, and so the calendar, as it was.
\<close>

theorem calendar_noop_on_missing_key:
  assumes "content_calendar st date_str = None"
  shows "update_calendar_item date_str field val st = Inr st
       \<and> delete_calendar_item date_str st = Inr st"
  using assms by (simp add: update_calendar_item_def delete_calendar_item_def dom_def)

theorem calendar_noop_on_missing_key_witness:
  "content_calendar one_planned ''2024-02-02'' = None
   \<and> update_calendar_item ''2024-02-02'' ''status'' ''posted'' one_planned = Inr one_planned
   \<and> delete_calendar_item ''2024-02-02'' one_planned = Inr one_planned"
proof -
  have h: "content_calendar one_planned ''2024-02-02'' = None"
    by (simp add: one_planned_def)
  show ?thesis
    using h calendar_noop_on_missing_key [OF h, of "''status''" "''posted''"] by simp
qed

subsection \<open>Idea ids\<close>

lemma three_ideas_ids: "map idea_id (content_ideas three_ideas) = [1, 2, 3]"
  by (simp add: three_ideas_def empty_state_def add_content_idea_def)

text \<open>
  Claim C4, as the code has it. A new idea is appended with the id
  \<open>length of the idea list + 1\<close>. Deleting the first of three ideas and adding a new one
  leaves two ideas with id 3 in the list.
\<close>

theorem idea_id_is_length_plus_one_and_collides:
  "map idea_id (content_ideas (add_content_idea now ttl descr tags prio cat st))
     = map idea_id (content_ideas st) @ [int (length (content_ideas st)) + 1]
   \<and> map idea_id (content_ideas
        (add_content_idea ''t4'' ''fourth'' ''d'' ''#d'' ''Medium'' ''General''
          (delete_content_idea 1 three_ideas))) = [2, 3, 3]"
  by (simp add: three_ideas_def empty_state_def add_content_idea_def delete_content_idea_def)

text \<open>
  Deleting the last of the three ideas and adding a new one gives the new idea the id 3
  of the deleted one, and the ids in the list are 1, 2, 3: no two ideas in the list
  share an id.
\<close>

theorem delete_last_then_add_counterexample:
  "map idea_id (content_ideas
        (add_content_idea ''t4'' ''fourth'' ''d'' ''#d'' ''Medium'' ''General''
          (delete_content_idea 3 three_ideas))) = [1, 2, 3]
   \<and> distinct (map idea_id (content_ideas
        (add_content_idea ''t4'' ''fourth'' ''d'' ''#d'' ''Medium'' ''General''
          (delete_content_idea 3 three_ideas))))"
  by (simp add: three_ideas_def empty_state_def add_content_idea_def delete_content_idea_def)

end
